theory Spec2Isabelle
  imports Main
begin

section \<open>The unrecoverable-error signal (src/src/panic.ts)\<close>

text \<open>
  \<^verbatim>\<open>
  export class Panic extends Error {
    constructor(message: string) {
      super(message);
      this.name = 'Panic';
      ...
    }
  }
  \<close>
  A \<open>Panic\<close> object carries the two observable fields of an \<open>Error\<close>: the message
  handed to the constructor and the name, which the constructor sets to the fixed string
  \<open>Panic\<close>. The stack trace (V8 only) is not modelled.
\<close>

record Panic =
  name :: string
  message :: string

definition Panic_new :: "string \<Rightarrow> Panic" where
  "Panic_new msg = \<lparr>name = ''Panic'', message = msg\<rparr>"

section \<open>Run-time values\<close>

text \<open>
  The containers are generic (\<open>Option<T>\<close>, \<open>Result<T, E>\<close>), so their payloads are
  type variables below. Where a statement is about one particular JavaScript value
  (\<open>undefined\<close>, the string \<open>"boom"\<close>) or about the test \<open>x instanceof Panic\<close>, the
  payload type is instantiated with \<open>jsval\<close>, the fragment of JavaScript values that
  is needed: \<open>undefined\<close>, numbers (integral ones), strings and \<open>Panic\<close> objects.
\<close>

datatype jsval =
    JS_undefined
  | JS_number int
  | JS_string string
  | JS_Panic Panic

text \<open>
  \<open>x instanceof Panic\<close>, as the example program (src/unnamed/part_000) tests the value it catches:
  true of the objects built by \<open>new Panic(...)\<close> only.
\<close>

fun instanceof_Panic :: "jsval \<Rightarrow> bool" where
  "instanceof_Panic (JS_Panic p) = True"
| "instanceof_Panic JS_undefined = False"
| "instanceof_Panic (JS_number n) = False"
| "instanceof_Panic (JS_string s) = False"

section \<open>The optional-value container (src/src/option.ts)\<close>

text \<open>
  The abstract class \<open>Option<T>\<close> has exactly the two subclasses \<open>Some<T>\<close> (field
  \<open>_value: T\<close>, set by the constructor) and \<open>None<T>\<close> (field \<open>_value\<close> fixed to
  \<open>undefined\<close> and read by no method). The constructors are suffixed, since \<open>Some\<close> and
  \<open>None\<close> are the constructors of HOL's own \<open>option\<close>.
\<close>

datatype 't Option =
    Some_opt 't
  | None_opt

text \<open>
  The argument of \<open>match\<close>: an object \<open>{ some: SomeArm<R, T>; none: NoneArm<R> }\<close> with
  \<open>SomeArm<R, T> = (value: T) => R\<close> and \<open>NoneArm<R> = () => R\<close>.
\<close>

record ('r, 't) Option_pattern =
  some :: "'t \<Rightarrow> 'r"
  none :: "unit \<Rightarrow> 'r"

text \<open>
  A method that can throw returns a sum: \<open>Inl x\<close> when it throws \<open>x\<close>, \<open>Inr v\<close> when it
  returns \<open>v\<close>.
  \<^verbatim>\<open>
  Some:  unwrap(): T { return this._value; }
  None:  unwrap(): T { throw new Panic("called `Option::unwrap()` on a `None` value"); }
  \<close>
\<close>

fun Option_unwrap :: "'t Option \<Rightarrow> Panic + 't" where
  "Option_unwrap (Some_opt v) = Inr v"
| "Option_unwrap None_opt = Inl (Panic_new ''called `Option::unwrap()` on a `None` value'')"

text \<open>
  \<^verbatim>\<open>
  Some:  match<R>(pattern): R { return pattern.some(this._value); }
  None:  match<R>(pattern): R { return pattern.none(); }
  \<close>
\<close>

fun Option_match :: "'t Option \<Rightarrow> ('r, 't) Option_pattern \<Rightarrow> 'r" where
  "Option_match (Some_opt v) pattern = some pattern v"
| "Option_match None_opt pattern = none pattern ()"

text \<open>
  \<^verbatim>\<open>
  Some:  isSome(): boolean { return true; }    isNone(): boolean { return false; }
  None:  isSome(): boolean { return false; }   isNone(): boolean { return true; }
  \<close>
\<close>

fun Option_isSome :: "'t Option \<Rightarrow> bool" where
  "Option_isSome (Some_opt v) = True"
| "Option_isSome None_opt = False"

fun Option_isNone :: "'t Option \<Rightarrow> bool" where
  "Option_isNone (Some_opt v) = False"
| "Option_isNone None_opt = True"

section \<open>The success/failure container (src/src/result.ts)\<close>

text \<open>
  The abstract class \<open>Result<T, E>\<close> has exactly the two subclasses \<open>Ok<T, E>\<close> (field
  \<open>_value: T\<close> set by the constructor, \<open>_error\<close> fixed to \<open>undefined\<close>) and
  \<open>Err<T, E>\<close> (field \<open>_error: E\<close> set by the constructor, \<open>_value\<close> fixed to
  \<open>undefined\<close>). No method of \<open>Ok\<close> reads \<open>_error\<close> and no method of \<open>Err\<close> reads
  \<open>_value\<close>.
\<close>

datatype ('t, 'e) Result =
    Ok 't
  | Err 'e

text \<open>
  The argument of \<open>match\<close>: an object \<open>{ ok: OkArm<R, T>; err: ErrArm<R, E> }\<close> with
  \<open>OkArm<R, T> = (value: T) => R\<close> and \<open>ErrArm<R, E> = (error: E) => R\<close>.
\<close>

record ('r, 't, 'e) Result_pattern =
  ok :: "'t \<Rightarrow> 'r"
  err :: "'e \<Rightarrow> 'r"

text \<open>
  \<^verbatim>\<open>
  Ok:   isOk(): boolean { return true; }    isErr(): boolean { return false; }
  Err:  isOk(): boolean { return false; }   isErr(): boolean { return true; }
  \<close>
\<close>

fun Result_isOk :: "('t, 'e) Result \<Rightarrow> bool" where
  "Result_isOk (Ok v) = True"
| "Result_isOk (Err e) = False"

fun Result_isErr :: "('t, 'e) Result \<Rightarrow> bool" where
  "Result_isErr (Ok v) = False"
| "Result_isErr (Err e) = True"

text \<open>
  \<^verbatim>\<open>
  Ok:   ok(): Option<T> { return new Some(this._value); }
        err(): Option<E> { return new None<E>(); }
  Err:  ok(): Option<T> { return new None<T>(); }
        err(): Option<E> { return new Some(this._error); }
  \<close>
\<close>

fun Result_ok :: "('t, 'e) Result \<Rightarrow> 't Option" where
  "Result_ok (Ok v) = Some_opt v"
| "Result_ok (Err e) = None_opt"

fun Result_err :: "('t, 'e) Result \<Rightarrow> 'e Option" where
  "Result_err (Ok v) = None_opt"
| "Result_err (Err e) = Some_opt e"

text \<open>
  \<^verbatim>\<open>
  Ok:   match<R>(pattern): R { return pattern.ok(this._value); }
  Err:  match<R>(pattern): R { return pattern.err(this._error); }
  \<close>
\<close>

fun Result_match :: "('t, 'e) Result \<Rightarrow> ('r, 't, 'e) Result_pattern \<Rightarrow> 'r" where
  "Result_match (Ok v) pattern = ok pattern v"
| "Result_match (Err e) pattern = err pattern e"

text \<open>
  \<^verbatim>\<open>
  Ok:   unwrap(): T { return this._value; }
  Err:  unwrap(): T { throw this._error; }
  \<close>
  \<open>Err.unwrap\<close> throws the held error value as it is: the thrown value has type \<open>E\<close>,
  where \<open>None.unwrap\<close> throws a \<open>Panic\<close>.
\<close>

fun Result_unwrap :: "('t, 'e) Result \<Rightarrow> 'e + 't" where
  "Result_unwrap (Ok v) = Inr v"
| "Result_unwrap (Err e) = Inl e"

section \<open>Observing the calls\<close>

text \<open>
  The result type \<open>R\<close> of a callback is arbitrary, so a callback may be a computation
  over some state. \<open>spy f tag\<close> is such a callback, the recording function of a test:
  called with \<open>a\<close> on a log of the calls made so far, it returns what \<open>f\<close> returns and
  appends one entry, \<open>tag a\<close>, to the log. A \<open>match\<close> run on the empty log leaves
  the list of all callback invocations it made, in order, with their arguments.
\<close>

definition spy :: "('a \<Rightarrow> 'r) \<Rightarrow> ('a \<Rightarrow> 'c) \<Rightarrow> 'a \<Rightarrow> 'c list \<Rightarrow> 'r \<times> 'c list" where
  "spy f tag a log = (f a, log @ [tag a])"

datatype 't Option_arm =
    Arm_some 't
  | Arm_none

datatype ('t, 'e) Result_arm =
    Arm_ok 't
  | Arm_err 'e

section \<open>Instances in a store\<close>







subsection \<open>Constructors\<close>





subsection \<open>Method bodies\<close>

text \<open>
  A method body takes the address \<open>this\<close> and the store, and returns its result with
  the store it leaves. A body that can throw returns a sum (\<open>Inl\<close> the thrown value).
  A callback is code of the caller: it takes its argument and the store, and returns its
  result with the store it leaves, so it can read and write any object.
\<close>





















subsection \<open>Calling a method several times\<close>


subsection \<open>Callbacks\<close>




section \<open>Auxiliary facts\<close>






section \<open>The optional-value container\<close>

text \<open>
  C7. For every value \<open>v\<close>, \<open>Some(v).isSome()\<close> is true, \<open>Some(v).isNone()\<close> is false and
  \<open>Some(v).unwrap()\<close> returns \<open>v\<close>; \<open>None.isSome()\<close> is false and \<open>None.isNone()\<close> is
  true.
\<close>

theorem Option_queries:
  "Option_isSome (Some_opt v) = True \<and>
   Option_isNone (Some_opt v) = False \<and>
   Option_unwrap (Some_opt v) = Inr v \<and>
   Option_isSome None_opt = False \<and>
   Option_isNone None_opt = True"
  by simp

text \<open>
  C2, as the specification states it: \<open>None.unwrap()\<close> raises the \<open>Panic\<close> that carries
  exactly the message \<open>called unwrap on an absent value\<close>. The code does not: the
  \<open>Panic\<close> it throws is a different one.
\<close>

theorem None_unwrap_message_counterexample:
  "Option_unwrap (None_opt :: jsval Option) \<noteq>
     Inl (Panic_new ''called unwrap on an absent value'')"
  by (simp add: Panic_new_def)

text \<open>
  C2, amended: \<open>None.unwrap()\<close> throws, for every payload type, and what it throws is
  the \<open>Panic\<close> object whose name is \<open>Panic\<close> and whose message is exactly the literal
  of option.ts, the one the repository's test of \<open>None.unwrap\<close> expects.
\<close>

theorem None_unwrap_message:
  "Option_unwrap None_opt =
     Inl \<lparr>name = ''Panic'', message = ''called `Option::unwrap()` on a `None` value''\<rparr>"
  by (simp add: Panic_new_def)

text \<open>
  C10. The variant alone decides what the operations of the optional-value container do:
  \<open>isSome\<close> and \<open>isNone\<close> answer the same for any two payloads of \<open>Some\<close>, and
  \<open>unwrap\<close> on \<open>Some\<close> returns the payload and never throws. In particular
  \<open>Some(undefined).isSome()\<close> is true, \<open>Some(undefined).isNone()\<close> is false, and
  \<open>Some(undefined).unwrap()\<close> returns \<open>undefined\<close> without throwing a \<open>Panic\<close>;
  \<open>match\<close> on it calls the \<open>some\<close> arm with \<open>undefined\<close>.
\<close>

theorem Some_undefined:
  "Option_isSome (Some_opt v) = Option_isSome (Some_opt w) \<and>
   Option_isNone (Some_opt v) = Option_isNone (Some_opt w) \<and>
   isl (Option_unwrap (Some_opt v)) = False \<and>
   Option_isSome (Some_opt JS_undefined) = True \<and>
   Option_isNone (Some_opt JS_undefined) = False \<and>
   Option_unwrap (Some_opt JS_undefined) = Inr JS_undefined \<and>
   Option_match (Some_opt JS_undefined) \<lparr>some = f, none = g\<rparr> = f JS_undefined"
  by simp

section \<open>The success/failure container\<close>

text \<open>
  C6. For every value \<open>v\<close>, \<open>Ok(v).isOk()\<close> is true, \<open>Ok(v).isErr()\<close> is false and
  \<open>Ok(v).unwrap()\<close> returns \<open>v\<close>; for every error value \<open>e\<close>, \<open>Err(e).isOk()\<close> is
  false and \<open>Err(e).isErr()\<close> is true.
\<close>

theorem Result_queries:
  "Result_isOk (Ok v) = True \<and>
   Result_isErr (Ok v) = False \<and>
   Result_unwrap (Ok v) = Inr v \<and>
   Result_isOk (Err e) = False \<and>
   Result_isErr (Err e) = True"
  by simp

text \<open>
  C5. The conversions to the optional-value container: \<open>Ok(v).ok()\<close> is \<open>Some(v)\<close> and
  \<open>Ok(v).err()\<close> is \<open>None\<close>; \<open>Err(e).ok()\<close> is \<open>None\<close> and \<open>Err(e).err()\<close> is
  \<open>Some(e)\<close>.
\<close>

theorem Result_conversions:
  "Result_ok (Ok v) = Some_opt v \<and>
   Result_err (Ok v) = None_opt \<and>
   Result_ok (Err e) = None_opt \<and>
   Result_err (Err e) = Some_opt e"
  by simp

text \<open>
  C8. Round trip through \<open>ok\<close>: for every value \<open>v\<close>, \<open>Ok(v).ok().unwrap()\<close> returns
  \<open>v\<close> and does not throw. In particular \<open>Ok(5).ok()\<close> is \<open>Some(5)\<close>, and unwrapping
  it returns \<open>5\<close>.
\<close>

theorem ok_unwrap_roundtrip:
  "Option_unwrap (Result_ok (Ok v)) = Inr v \<and>
   Result_ok (Ok (JS_number 5)) = Some_opt (JS_number 5) \<and>
   Option_unwrap (Result_ok (Ok (JS_number 5))) = Inr (JS_number 5)"
  by simp

section \<open>Pattern matching\<close>

text \<open>
  C4. \<open>match\<close> returns the result of one callback applied to the payload, unchanged:
  \<open>Some(v).match({some: f, none: g})\<close> is \<open>f(v)\<close>, \<open>None.match({some: f, none: g})\<close> is
  \<open>g()\<close>, \<open>Ok(v).match({ok: f, err: g})\<close> is \<open>f(v)\<close> and
  \<open>Err(e).match({ok: f, err: g})\<close> is \<open>g(e)\<close>. With recording callbacks, the log
  after \<open>match\<close> has exactly one entry: the arm of the container's variant, called with
  the container's payload; the other arm is not called.
\<close>

theorem match_calls_one_arm:
  "Option_match (Some_opt v) \<lparr>some = f, none = g\<rparr> = f v \<and>
   Option_match None_opt \<lparr>some = f, none = g\<rparr> = g () \<and>
   Result_match (Ok v) \<lparr>ok = f, err = h\<rparr> = f v \<and>
   Result_match (Err e) \<lparr>ok = f, err = h\<rparr> = h e \<and>
   Option_match (Some_opt v) \<lparr>some = spy f Arm_some, none = spy g (\<lambda>u. Arm_none)\<rparr> [] =
     (f v, [Arm_some v]) \<and>
   Option_match None_opt \<lparr>some = spy f Arm_some, none = spy g (\<lambda>u. Arm_none)\<rparr> [] =
     (g (), [Arm_none]) \<and>
   Result_match (Ok v) \<lparr>ok = spy f Arm_ok, err = spy h Arm_err\<rparr> [] =
     (f v, [Arm_ok v]) \<and>
   Result_match (Err e) \<lparr>ok = spy f Arm_ok, err = spy h Arm_err\<rparr> [] =
     (h e, [Arm_err e])"
  by (simp add: spy_def)

section \<open>Unwrapping a failure\<close>

text \<open>
  C3. The two failing \<open>unwrap\<close> paths differ. For every error value \<open>e\<close>,
  \<open>Err(e).unwrap()\<close> throws \<open>e\<close> itself, with no \<open>Panic\<close> around it: a held string is
  thrown as that string, which is no instance of \<open>Panic\<close>. \<open>None.unwrap()\<close> throws an
  object built by \<open>new Panic(...)\<close>, whose name is \<open>Panic\<close>, for every payload type.
\<close>

theorem unwrap_asymmetry:
  "Result_unwrap (Err e) = Inl e \<and>
   Result_unwrap (Err (JS_string s)) = Inl (JS_string s) \<and>
   instanceof_Panic (JS_string s) = False \<and>
   Option_unwrap None_opt = Inl (Panic_new ''called `Option::unwrap()` on a `None` value'') \<and>
   name (Panic_new ''called `Option::unwrap()` on a `None` value'') = ''Panic'' \<and>
   instanceof_Panic (JS_Panic (Panic_new ''called `Option::unwrap()` on a `None` value'')) = True"
  by (simp add: Panic_new_def)

text \<open>
  C1, at the input \<open>new Err("boom").unwrap()\<close>. The documentation of \<open>Result.unwrap\<close>
  (\<open>Throws Panic if the value is an Err\<close>) and of \<open>Panic\<close> (\<open>thrown when unwrapping a
  Result that is Err\<close>) promise a \<open>Panic\<close>. The code throws the string \<open>"boom"\<close>
  itself, and a string is no instance of \<open>Panic\<close>.
\<close>

theorem Err_unwrap_boom:
  "Result_unwrap (Err (JS_string ''boom'') :: (jsval, jsval) Result) = Inl (JS_string ''boom'') \<and>
   instanceof_Panic (JS_string ''boom'') = False"
  by simp

section \<open>Repeated calls\<close>



end
